theory Spec2Isabelle
  imports Complex_Main
begin

section \<open>C strings\<close>

text \<open>
  A \<^typ>\<open>string\<close> is a list of bytes. Where the source hands a \<open>char*\<close> to a
  function that reads a C string, the function reads the bytes before the first
  NUL byte: \<open>c_str\<close>. A buffer that \<open>malloc\<close> returned is the list of its
  bytes, the terminator included.
\<close>

definition c_str :: "string \<Rightarrow> string" where
  "c_str bytes = takeWhile (\<lambda>c. c \<noteq> CHR 0x00) bytes"

definition strlen :: "string \<Rightarrow> nat" where
  "strlen s = length (c_str s)"

text \<open>\<open>strdup\<close> copies the C string it is given, so up to the first NUL byte.
  It is taken to succeed: the source does not test its result.\<close>

definition strdup :: "string \<Rightarrow> string" where
  "strdup s = c_str s"

text \<open>\<open>strcat(dest, src)\<close> writes the C string \<open>src\<close> and a terminator over
  \<open>dest\<close>, from the terminator of \<open>dest\<close> on. The bytes of \<open>dest\<close> behind
  stay. A write past the end of \<open>dest\<close> makes the list longer than the buffer
  was.\<close>

definition strcat :: "string \<Rightarrow> string \<Rightarrow> string" where
  "strcat dest src =
     (let n = strlen dest; m = strlen src
      in take n dest @ c_str src @ [CHR 0x00] @ drop (n + m + 1) dest)"

section \<open>The credential loader\<close>

text \<open>
  The values of json-c. A \<open>json_object*\<close> is a \<^typ>\<open>'a option\<close>: json-c
  represents the JSON value \<open>null\<close> by the NULL pointer. A string holds its
  bytes with their length, and may hold NUL bytes (written \<open>\u0000\<close> in the
  text). The members of an object are the entries of its table, looked up by key.
\<close>

datatype json_object =
    JBoolean bool
  | JDouble real
  | JInt int
  | JObject "(string \<times> json_object option) list"
  | JArray "json_object option list"
  | JString string

datatype json_type =
    json_type_null
  | json_type_boolean
  | json_type_double
  | json_type_int
  | json_type_object
  | json_type_array
  | json_type_string

fun json_object_get_type :: "json_object option \<Rightarrow> json_type" where
  "json_object_get_type None = json_type_null"
| "json_object_get_type (Some (JBoolean b)) = json_type_boolean"
| "json_object_get_type (Some (JDouble d)) = json_type_double"
| "json_object_get_type (Some (JInt i)) = json_type_int"
| "json_object_get_type (Some (JObject kvs)) = json_type_object"
| "json_object_get_type (Some (JArray xs)) = json_type_array"
| "json_object_get_type (Some (JString s)) = json_type_string"

definition json_object_is_type :: "json_object option \<Rightarrow> json_type \<Rightarrow> bool" where
  "json_object_is_type jso type = (json_object_get_type jso = type)"

text \<open>\<open>json_object_object_get\<close> gives NULL for a key that is absent, for a key
  whose value is \<open>null\<close>, and for a value that is not an object.\<close>

fun json_object_object_get :: "json_object \<Rightarrow> string \<Rightarrow> json_object option" where
  "json_object_object_get (JObject kvs) key =
     (case map_of kvs key of None \<Rightarrow> None | Some v \<Rightarrow> v)"
| "json_object_object_get _ key = None"

text \<open>\<open>json_object_get_string\<close> of a string is a pointer to its bytes, and NULL
  of NULL. For the other types json-c returns the serialised text; the source
  calls it on strings only, and the model has no value there.\<close>

fun json_object_get_string :: "json_object option \<Rightarrow> string option" where
  "json_object_get_string (Some (JString s)) = Some s"
| "json_object_get_string _ = None"

text \<open>\<open>char*\<close> fields: \<open>None\<close> is the NULL pointer.\<close>

record Credentials =
  user :: "string option"
  token :: "string option"

text \<open>
  \<open>get_user_credentials\<close> writes through its first argument and returns an
  \<open>int\<close>: the model returns the code and the struct as it is afterwards.
  \<open>json_tokener_parse\<close> of json-c is the parameter \<open>tokener\<close>; it returns NULL
  for a text it does not accept.
\<close>

definition get_user_credentials ::
  "(string \<Rightarrow> json_object option) \<Rightarrow> Credentials \<Rightarrow> string \<Rightarrow> int \<times> Credentials" where
  "get_user_credentials tokener credentials string =
     (case tokener string of
        None \<Rightarrow> (1, credentials)
      | Some object \<Rightarrow>
          (let user = json_object_object_get object ''user'' in
           if user = None \<or> \<not> json_object_is_type user json_type_string
           then (2, credentials)
           else
             let token = json_object_object_get object ''token'' in
             if token = None \<or> \<not> json_object_is_type token json_type_string
             then (3, credentials)
             else (0, credentials
                     \<lparr>user := map_option strdup (json_object_get_string user),
                      token := map_option strdup (json_object_get_string token)\<rparr>)))"

section \<open>The request dispatcher\<close>

text \<open>
  \<open>malloc\<close> succeeds or not, as the parameter \<open>malloc_ok\<close> says for the size
  asked. The buffer is zeroed by \<open>memset\<close> and filled by four \<open>strcat\<close>;
  the result is the buffer, or \<open>None\<close> for NULL. The lengths are those of
  strings in memory, so their sum does not wrap in \<open>size_t\<close>.
\<close>

definition get_project_url_owned ::
  "(nat \<Rightarrow> bool) \<Rightarrow> string \<Rightarrow> string \<Rightarrow> string option" where
  "get_project_url_owned malloc_ok jenkins_url project =
     (let job = ''/job/'';
          build = ''/build'';
          url_length = strlen jenkins_url + strlen job + strlen project
            + strlen build + 1
      in if \<not> malloc_ok url_length then None
         else
           let url = replicate url_length (CHR 0x00);
               url = strcat url jenkins_url;
               url = strcat url job;
               url = strcat url project;
               url = strcat url build
           in Some url)"

text \<open>
  The easy handle of libcurl: the options the program sets, and the response
  code that \<open>curl_easy_getinfo\<close> reads. libcurl copies the strings it is given
  for the URL, the user name and the password.
\<close>

record CURL =
  CURLOPT_HTTPAUTH :: nat
  CURLOPT_USERNAME :: "string option"
  CURLOPT_PASSWORD :: "string option"
  CURLOPT_URL :: "string option"
  CURLOPT_POST :: int
  CURLOPT_POSTFIELDS :: "string option"
  CURLINFO_RESPONSE_CODE :: int

definition CURLAUTH_BASIC :: nat where
  "CURLAUTH_BASIC = 1"

definition CURLE_OK :: nat where
  "CURLE_OK = 0"

definition CURLE_COULDNT_CONNECT :: nat where
  "CURLE_COULDNT_CONNECT = 7"

text \<open>
  What one transfer yields: the \<open>CURLcode\<close> of \<open>curl_easy_perform\<close>, and the
  response code that libcurl stores for it, which is zero if no server response
  code has been received. A status code has three digits, so the conversion of
  the \<open>long\<close> to the \<open>int\<close> that \<open>build_project\<close> returns keeps it.

  The network is the parameter \<open>net\<close>: from the handles of the transfers made
  before and the handle of this one to what the transfer yields. Each transfer
  is written to the log of the run.
\<close>

record transfer =
  curlcode :: nat
  response_code :: int

type_synonym transport = "CURL list \<Rightarrow> CURL \<Rightarrow> transfer"

definition curl_easy_perform ::
  "transport \<Rightarrow> CURL \<times> CURL list \<Rightarrow> nat \<times> CURL \<times> CURL list" where
  "curl_easy_perform net st =
     (case st of (curl, sent) \<Rightarrow>
        let t = net sent curl
        in (curlcode t,
            curl\<lparr>CURLINFO_RESPONSE_CODE := response_code t\<rparr>,
            sent @ [curl]))"

definition build_project ::
  "transport \<Rightarrow> CURL \<times> CURL list \<Rightarrow> string option \<Rightarrow> string \<Rightarrow> int \<times> CURL \<times> CURL list" where
  "build_project net st project_url project =
     (case st of (curl, sent) \<Rightarrow>
        let curl = curl\<lparr>CURLOPT_URL := map_option c_str project_url\<rparr>;
            curl = curl\<lparr>CURLOPT_POST := 1\<rparr>;
            curl = curl\<lparr>CURLOPT_POSTFIELDS := Some []\<rparr>
        in case curl_easy_perform net (curl, sent) of (result, curl, sent) \<Rightarrow>
             if CURLE_OK \<noteq> result
             then (let result_code = CURLINFO_RESPONSE_CODE curl
                   in (result_code, curl, sent))
             else (0, curl, sent))"

section \<open>The driver\<close>

text \<open>
  \<open>strtok_r(str, delim, &saveptr)\<close> of the C library: it scans from \<open>str\<close>,
  or from \<open>saveptr\<close> when \<open>str\<close> is NULL, skips the leading delimiters, and
  returns NULL if nothing is left; otherwise the token up to the next delimiter,
  and \<open>saveptr\<close> behind that delimiter. The model returns the token and the new
  \<open>saveptr\<close>.
\<close>

definition strtok_r :: "string option \<Rightarrow> string \<Rightarrow> string \<Rightarrow> string option \<times> string" where
  "strtok_r str delim saveptr =
     (let s = (case str of None \<Rightarrow> saveptr | Some s \<Rightarrow> s);
          s = dropWhile (\<lambda>c. c \<in> set delim) s
      in if s = [] then (None, [])
         else
           let tok = takeWhile (\<lambda>c. c \<notin> set delim) s;
               rest = dropWhile (\<lambda>c. c \<notin> set delim) s
           in (Some tok, if rest = [] then [] else tl rest))"

lemma strtok_r_Some:
  assumes ne: "dropWhile (\<lambda>c. c \<in> set delim)
      (case str of None \<Rightarrow> saveptr | Some s \<Rightarrow> s) \<noteq> []" (is "?s \<noteq> []")
  shows "strtok_r str delim saveptr =
     (Some (takeWhile (\<lambda>c. c \<notin> set delim) ?s),
      if dropWhile (\<lambda>c. c \<notin> set delim) ?s = [] then []
      else tl (dropWhile (\<lambda>c. c \<notin> set delim) ?s))"
  using ne by (simp only: strtok_r_def Let_def if_False)

lemma strtok_r_None:
  assumes ne: "dropWhile (\<lambda>c. c \<in> set delim)
      (case str of None \<Rightarrow> saveptr | Some s \<Rightarrow> s) = []"
  shows "strtok_r str delim saveptr = (None, [])"
  using ne by (simp only: strtok_r_def Let_def refl if_True)

lemma strtok_r_shorter:
  assumes "fst (strtok_r None delim saveptr) = Some tok"
  shows "length (snd (strtok_r None delim saveptr)) < length saveptr"
proof -
  let ?s = "dropWhile (\<lambda>c. c \<in> set delim) saveptr"
  let ?rest = "dropWhile (\<lambda>c. c \<notin> set delim) ?s"
  have ne: "?s \<noteq> []"
  proof
    assume "?s = []"
    then have "strtok_r None delim saveptr = (None, [])"
      by (intro strtok_r_None) (simp only: option.case)
    with assms show False by simp
  qed
  then have "hd ?s \<notin> set delim"
    using hd_dropWhile [of "\<lambda>c. c \<in> set delim" saveptr] by simp
  with ne have "takeWhile (\<lambda>c. c \<notin> set delim) ?s \<noteq> []"
    by (cases ?s) simp_all
  moreover have "length (takeWhile (\<lambda>c. c \<notin> set delim) ?s) + length ?rest = length ?s"
    by (simp only: length_append [symmetric] takeWhile_dropWhile_id)
  ultimately have "length ?rest < length ?s"
    by (cases "takeWhile (\<lambda>c. c \<notin> set delim) ?s") simp_all
  moreover have "length ?s \<le> length saveptr"
    by (rule length_dropWhile_le)
  moreover have "snd (strtok_r None delim saveptr) = (if ?rest = [] then [] else tl ?rest)"
    by (simp only: strtok_r_Some [where str = None, unfolded option.case, OF ne] snd_conv)
  ultimately show ?thesis by auto
qed

lemma strtok_r_measure_sel:
  "(case fst (strtok_r None delim saveptr) of None \<Rightarrow> 0
    | Some p \<Rightarrow> Suc (length (snd (strtok_r None delim saveptr)))) < Suc (length saveptr)"
proof (cases "fst (strtok_r None delim saveptr)")
  case None
  then show ?thesis by simp
next
  case (Some p)
  then show ?thesis
    using strtok_r_shorter [of delim saveptr p] by simp
qed

text \<open>
  The values that \<open>project\<close> takes in the \<open>for\<close> loop of \<open>main\<close>, from the
  state of the loop: the token of the last \<open>strtok_r\<close> and \<open>saveptr\<close>.
\<close>

function for_project :: "string option \<Rightarrow> string \<Rightarrow> string list" where
  "for_project None saveptr = []"
| "for_project (Some project) saveptr =
     project # for_project (fst (strtok_r None '':'' saveptr)) (snd (strtok_r None '':'' saveptr))"
  by pat_completeness auto
termination
proof (relation "measure (\<lambda>(project, saveptr).
        case project of None \<Rightarrow> 0 | Some p \<Rightarrow> Suc (length saveptr))")
  show "wf (measure (\<lambda>(project, saveptr).
        case project of None \<Rightarrow> 0 | Some p \<Rightarrow> Suc (length saveptr)))"
    by (rule wf_measure)
next
  fix project :: string and saveptr :: string
  show "((fst (strtok_r None '':'' saveptr), snd (strtok_r None '':'' saveptr)),
         (Some project, saveptr))
        \<in> measure (\<lambda>(project, saveptr).
             case project of None \<Rightarrow> 0 | Some p \<Rightarrow> Suc (length saveptr))"
    using strtok_r_measure_sel [of "'':''" saveptr]
    by (simp only: in_measure prod.case option.case)
qed

text \<open>
  The \<open>for\<close> loop of \<open>main\<close>, with its body: the state is \<open>result\<close>, the
  handle and the log of the transfers. The loop ends when \<open>strtok_r\<close> returns
  NULL, and at the \<open>break\<close>.
\<close>

function main_loop ::
  "transport \<Rightarrow> (nat \<Rightarrow> bool) \<Rightarrow> string \<Rightarrow> string option \<Rightarrow> string
     \<Rightarrow> int \<times> CURL \<times> CURL list \<Rightarrow> int \<times> CURL \<times> CURL list" where
  "main_loop net malloc_ok jenkins_host None saveptr st = st"
| "main_loop net malloc_ok jenkins_host (Some project) saveptr st =
     (let project_url = get_project_url_owned malloc_ok jenkins_host project;
          st' = build_project net (snd st) project_url project
      in if 0 \<noteq> fst st' then st'
         else main_loop net malloc_ok jenkins_host
                (fst (strtok_r None '':'' saveptr)) (snd (strtok_r None '':'' saveptr)) st')"
  by pat_completeness auto
termination
proof (relation "measure (\<lambda>(net, malloc_ok, jenkins_host, project, saveptr, st).
        case project of None \<Rightarrow> 0 | Some p \<Rightarrow> Suc (length saveptr))")
  show "wf (measure (\<lambda>(net, malloc_ok, jenkins_host, project, saveptr, st).
        case project of None \<Rightarrow> 0 | Some p \<Rightarrow> Suc (length saveptr)))"
    by (rule wf_measure)
next
  fix net :: transport and malloc_ok :: "nat \<Rightarrow> bool" and jenkins_host project saveptr :: string
    and st st' :: "int \<times> CURL \<times> CURL list"
  show "((net, malloc_ok, jenkins_host, fst (strtok_r None '':'' saveptr),
          snd (strtok_r None '':'' saveptr), st'),
         (net, malloc_ok, jenkins_host, Some project, saveptr, st))
        \<in> measure (\<lambda>(net, malloc_ok, jenkins_host, project, saveptr, st).
             case project of None \<Rightarrow> 0 | Some p \<Rightarrow> Suc (length saveptr))"
    using strtok_r_measure_sel [of "'':''" saveptr]
    by (simp only: in_measure prod.case option.case)
qed

text \<open>
  A file as \<open>get_file_contents\<close> meets it: the size that \<open>stat\<close> reports,
  whether \<open>fopen\<close> opens it, and the bytes that \<open>fread\<close> can deliver. A path
  that \<open>stat\<close> rejects has no file.

  The buffer has \<open>st_size + 1\<close> bytes. \<open>fread\<close> writes the first \<open>st_size\<close>;
  the source never writes the last one, so the buffer has no terminator of its
  own. The result is NULL, or the memory at the pointer returned: the bytes read,
  and behind them the parameter \<open>heap\<close>, the bytes that \<open>malloc\<close> left in the
  last byte of the buffer and that lie behind the buffer. A function that reads a
  C string there reads on into \<open>heap\<close> unless the file has a NUL byte.
\<close>

record disk_file =
  st_size :: nat
  fopen_ok :: bool
  bytes :: string

definition get_file_contents ::
  "(string \<Rightarrow> disk_file option) \<Rightarrow> (nat \<Rightarrow> bool) \<Rightarrow> string \<Rightarrow> string \<Rightarrow> string option" where
  "get_file_contents fs malloc_ok heap path =
     (case fs path of
        None \<Rightarrow> None
      | Some input_file \<Rightarrow>
          if \<not> fopen_ok input_file then None
          else if \<not> malloc_ok (st_size input_file + 1) then None
          else
            let file_contents = take (st_size input_file) (bytes input_file);
                bytes_read = length file_contents
            in if bytes_read \<noteq> st_size input_file then None
               else Some (file_contents @ heap))"

text \<open>The values of \<open>errno.h\<close> on Linux.\<close>

definition EINVAL :: int where
  "EINVAL = 22"

definition ENOMEM :: int where
  "ENOMEM = 12"

text \<open>\<open>Arguments\<close> after \<open>argp_parse\<close>: \<open>parse_opt\<close> ends the process in
  \<open>argp_usage\<close> when a flag is missing, so both fields are set when \<open>main\<close>
  goes on.\<close>

record Arguments =
  credentials :: string
  jenkins_host :: string

text \<open>
  What \<open>main\<close> meets outside the program: the arguments, the value of
  \<open>PROJECTS\<close> in the environment (\<open>None\<close> when unset), the files, the
  allocator (whether \<open>malloc\<close> of a size succeeds, and the bytes it leaves
  behind what \<open>get_file_contents\<close> reads), the tokener of json-c, whether
  \<open>curl_easy_init\<close> returns a handle, and the network.
\<close>

record world =
  arguments :: Arguments
  getenv_PROJECTS :: "string option"
  files :: "string \<Rightarrow> disk_file option"
  malloc :: "nat \<Rightarrow> bool"
  heap :: string
  json_tokener_parse :: "string \<Rightarrow> json_object option"
  curl_easy_init_ok :: bool
  network :: transport

text \<open>The handle that \<open>curl_easy_init\<close> returns: no option is set.\<close>

definition curl_easy_init :: CURL where
  "curl_easy_init =
     \<lparr>CURLOPT_HTTPAUTH = 0, CURLOPT_USERNAME = None, CURLOPT_PASSWORD = None,
      CURLOPT_URL = None, CURLOPT_POST = 0, CURLOPT_POSTFIELDS = None,
      CURLINFO_RESPONSE_CODE = 0\<rparr>"

text \<open>
  The model of \<open>main\<close> returns the \<open>int\<close> that \<open>main\<close> returns, with the
  transfers made, in their order. The messages on the standard error, and the
  release of the buffers, of the struct and of the handle, have no part in either
  and are left out.
\<close>

definition main :: "world \<Rightarrow> int \<times> CURL list" where
  "main w =
     (case getenv_PROJECTS w of
        None \<Rightarrow> (EINVAL, [])
      | Some env_projects \<Rightarrow>
          (case get_file_contents (files w) (malloc w) (heap w) (credentials (arguments w)) of
             None \<Rightarrow> (EINVAL, [])
           | Some credentials_file \<Rightarrow>
               (case get_user_credentials (json_tokener_parse w)
                       \<lparr>user = None, token = None\<rparr> credentials_file of
                  (result, creds) \<Rightarrow>
                    if 0 \<noteq> result then (result, [])
                    else if \<not> curl_easy_init_ok w then (ENOMEM, [])
                    else
                      let curl = curl_easy_init;
                          curl = curl\<lparr>CURLOPT_HTTPAUTH := CURLAUTH_BASIC\<rparr>;
                          curl = curl\<lparr>CURLOPT_USERNAME := map_option c_str (user creds)\<rparr>;
                          curl = curl\<lparr>CURLOPT_PASSWORD := map_option c_str (token creds)\<rparr>;
                          first = strtok_r (Some env_projects) '':'' []
                      in case main_loop (network w) (malloc w) (jenkins_host (arguments w))
                                (fst first) (snd first) (result, curl, [])
                         of (result, curl, sent) \<Rightarrow> (result, sent))))"

text \<open>
  The exit status of the process, as its parent reads it: the low 8 bits of the
  value that \<open>main\<close> returns. So 500 is read as 244, and 512 as 0.
\<close>

definition exit_status :: "int \<Rightarrow> int" where
  "exit_status result = result mod 256"

section \<open>What a run shows\<close>

text \<open>
  What \<open>build_project\<close> returns for the transfer of the handle \<open>curl\<close> after
  the transfers \<open>sent\<close>, and the list of these values for a log.
\<close>

definition dispatch_result :: "transport \<Rightarrow> CURL list \<Rightarrow> CURL \<Rightarrow> int" where
  "dispatch_result net sent curl =
     (if CURLE_OK \<noteq> curlcode (net sent curl) then response_code (net sent curl) else 0)"

definition dispatch_results :: "transport \<Rightarrow> CURL list \<Rightarrow> int list" where
  "dispatch_results net sent =
     map (\<lambda>i. dispatch_result net (take i sent) (sent ! i)) [0..<length sent]"

text \<open>
  The handle at the entry of the loop, and the runs of \<open>main\<close> that reach the
  loop: \<open>PROJECTS\<close> is set to \<open>env_projects\<close>, the credential file is read,
  the loader returns 0 and the struct \<open>creds\<close>, and libcurl gives a handle.
\<close>

definition client :: "Credentials \<Rightarrow> CURL" where
  "client creds = curl_easy_init
     \<lparr>CURLOPT_HTTPAUTH := CURLAUTH_BASIC,
      CURLOPT_USERNAME := map_option c_str (user creds),
      CURLOPT_PASSWORD := map_option c_str (token creds)\<rparr>"

definition main_reaches_loop :: "world \<Rightarrow> string \<Rightarrow> Credentials \<Rightarrow> bool" where
  "main_reaches_loop w env_projects creds \<longleftrightarrow>
     getenv_PROJECTS w = Some env_projects
     \<and> (case get_file_contents (files w) (malloc w) (heap w) (credentials (arguments w)) of
          None \<Rightarrow> False
        | Some credentials_file \<Rightarrow>
            get_user_credentials (json_tokener_parse w) \<lparr>user = None, token = None\<rparr>
              credentials_file = (0, creds))
     \<and> curl_easy_init_ok w"

text \<open>
  The words of the specification: the value of \<open>PROJECTS\<close> split on the
  separator, each segment between two separators kept, the empty ones too.
\<close>

fun spec_split :: "char \<Rightarrow> string \<Rightarrow> string list" where
  "spec_split sep [] = [[]]"
| "spec_split sep (c # cs) =
     (if c = sep then [] # spec_split sep cs
      else (case spec_split sep cs of
              [] \<Rightarrow> [[c]]
            | seg # segs \<Rightarrow> (c # seg) # segs))"

section \<open>Example inputs\<close>

text \<open>
  A credential file with a user name that has a two-byte UTF-8 character and a
  token with punctuation, and three files that the loader rejects or cuts: one
  without \<open>token\<close>, one whose \<open>user\<close> is a number, and one whose \<open>user\<close>
  has the escape \<open>\u0000\<close>. \<open>example_tokener\<close> gives for each text the value
  that json-c builds from it, and NULL for any other text.
\<close>

definition text_valid :: string where
  \<open>text_valid = ''{"user": "zo'' @ [CHR 0xC3, CHR 0xAB] @ ''", "token": "s3cr3t!"}''\<close>

definition text_no_token :: string where
  \<open>text_no_token = ''{"user": "ci-bot"}''\<close>

definition text_int_user :: string where
  \<open>text_int_user = ''{"user": 7, "token": "s3cr3t!"}''\<close>

definition text_nul_user :: string where
  \<open>text_nul_user = ''{"user": "a'' @ [CHR 0x5C] @ ''u0000b", "token": "t"}''\<close>

definition example_tokener :: "string \<Rightarrow> json_object option" where
  "example_tokener text =
     (if text = text_valid
      then Some (JObject [(''user'', Some (JString (''zo'' @ [CHR 0xC3, CHR 0xAB]))),
                          (''token'', Some (JString ''s3cr3t!''))])
      else if text = text_no_token
      then Some (JObject [(''user'', Some (JString ''ci-bot''))])
      else if text = text_int_user
      then Some (JObject [(''user'', Some (JInt 7)), (''token'', Some (JString ''s3cr3t!''))])
      else if text = text_nul_user
      then Some (JObject [(''user'', Some (JString [CHR ''a'', CHR 0x00, CHR ''b''])),
                          (''token'', Some (JString ''t''))])
      else None)"

text \<open>
  A run of the program: the credential file \<open>creds.json\<close> with a given
  text, the host \<open>http://ci.example.com\<close>, an allocator that never fails, and
  a network that answers every transfer alike (\<open>always\<close>) or fails at one URL
  (\<open>failing_at\<close>). \<open>example_request\<close> is the handle of a transfer of such a
  run, with the response code that the transfer before left in it. The byte
  behind the bytes of the file happens to be 0, and the tokener reads the C
  string at the pointer it is given.
\<close>

definition CURLE_RECV_ERROR :: nat where
  "CURLE_RECV_ERROR = 56"

definition example_files :: "string \<Rightarrow> string \<Rightarrow> disk_file option" where
  "example_files text path =
     (if path = ''creds.json''
      then Some \<lparr>st_size = length text, fopen_ok = True, bytes = text\<rparr>
      else None)"

definition always :: "nat \<Rightarrow> int \<Rightarrow> transport" where
  "always code status = (\<lambda>sent curl. \<lparr>curlcode = code, response_code = status\<rparr>)"

definition failing_at :: "string \<Rightarrow> nat \<Rightarrow> int \<Rightarrow> transport" where
  "failing_at url code status =
     (\<lambda>sent curl. if CURLOPT_URL curl = Some url
        then \<lparr>curlcode = code, response_code = status\<rparr>
        else \<lparr>curlcode = CURLE_OK, response_code = 201\<rparr>)"

definition example_world :: "string option \<Rightarrow> transport \<Rightarrow> world" where
  "example_world projects net =
     \<lparr>arguments = \<lparr>credentials = ''creds.json'', jenkins_host = ''http://ci.example.com''\<rparr>,
      getenv_PROJECTS = projects,
      files = example_files text_valid,
      malloc = (\<lambda>n. True),
      heap = [CHR 0x00],
      json_tokener_parse = (\<lambda>string. example_tokener (c_str string)),
      curl_easy_init_ok = True,
      network = net\<rparr>"

definition example_credentials :: Credentials where
  "example_credentials = \<lparr>user = Some (''zo'' @ [CHR 0xC3, CHR 0xAB]), token = Some ''s3cr3t!''\<rparr>"

definition example_request :: "string \<Rightarrow> int \<Rightarrow> CURL" where
  "example_request url status =
     \<lparr>CURLOPT_HTTPAUTH = 1, CURLOPT_USERNAME = Some (''zo'' @ [CHR 0xC3, CHR 0xAB]),
      CURLOPT_PASSWORD = Some ''s3cr3t!'', CURLOPT_URL = Some url, CURLOPT_POST = 1,
      CURLOPT_POSTFIELDS = Some [], CURLINFO_RESPONSE_CODE = status\<rparr>"

section \<open>C strings and buffers\<close>

lemma c_str_id: "CHR 0x00 \<notin> set s \<Longrightarrow> c_str s = s"
  by (auto simp: c_str_def)

lemma c_str_terminated: "CHR 0x00 \<notin> set a \<Longrightarrow> c_str (a @ CHR 0x00 # rest) = a"
  by (simp add: c_str_def takeWhile_append2 [symmetric] takeWhile_append)

text \<open>\<open>strcat\<close> on a buffer that holds the C string \<open>a\<close> and has \<open>k\<close> zero
  bytes behind it: the string \<open>s\<close> and its terminator fit when \<open>s\<close> is shorter
  than \<open>k\<close>, and the buffer keeps its length.\<close>

lemma strcat_buffer:
  assumes a: "CHR 0x00 \<notin> set a" and s: "CHR 0x00 \<notin> set s" and k: "length s < k"
  shows "strcat (a @ replicate k (CHR 0x00)) s = (a @ s) @ replicate (k - length s) (CHR 0x00)"
proof -
  obtain k' where k': "k = Suc k'" using k by (cases k) simp_all
  have "c_str (a @ replicate k (CHR 0x00)) = a"
    using a by (simp add: k' c_str_terminated)
  then have n: "strlen (a @ replicate k (CHR 0x00)) = length a"
    by (simp add: strlen_def)
  have m: "strlen s = length s" "c_str s = s"
    using s by (simp_all add: strlen_def c_str_id)
  have "[CHR 0x00] @ replicate (k - (length s + 1)) (CHR 0x00) = replicate (k - length s) (CHR 0x00)"
    using k by (simp add: replicate_Suc [symmetric] Suc_diff_Suc del: replicate_Suc)
  then show ?thesis
    by (simp add: strcat_def Let_def n m)
qed

lemma strlen_job_build:
  "strlen ''/job/'' = 5" "strlen ''/build'' = 6"
  by (simp_all add: c_str_def strlen_def)

lemma get_project_url_owned_buffer:
  assumes h: "CHR 0x00 \<notin> set host" and p: "CHR 0x00 \<notin> set project"
  shows "get_project_url_owned malloc_ok host project =
     (if malloc_ok (length host + length project + 12)
      then Some (host @ ''/job/'' @ project @ ''/build'' @ [CHR 0x00]) else None)"
proof -
  let ?n = "length host + length project + 12"
  have len: "strlen host + strlen ''/job/'' + strlen project + strlen ''/build'' + 1 = ?n"
    using h p by (simp add: strlen_job_build) (simp add: strlen_def c_str_id)
  have s1: "strcat (replicate ?n (CHR 0x00)) host = host @ replicate (length project + 12) (CHR 0x00)"
    using strcat_buffer [of "[]" host ?n] h by simp
  have s2: "strcat (host @ replicate (length project + 12) (CHR 0x00)) ''/job/''
      = (host @ ''/job/'') @ replicate (length project + 7) (CHR 0x00)"
    using strcat_buffer [of host "''/job/''" "length project + 12"] h by simp
  have s3: "strcat ((host @ ''/job/'') @ replicate (length project + 7) (CHR 0x00)) project
      = (host @ ''/job/'' @ project) @ replicate 7 (CHR 0x00)"
    using strcat_buffer [of "host @ ''/job/''" project "length project + 7"] h p by simp
  have s4: "strcat ((host @ ''/job/'' @ project) @ replicate 7 (CHR 0x00)) ''/build''
      = (host @ ''/job/'' @ project @ ''/build'') @ replicate 1 (CHR 0x00)"
    using strcat_buffer [of "host @ ''/job/'' @ project" "''/build''" 7] h p by simp
  show ?thesis
    unfolding get_project_url_owned_def Let_def len
    by (simp only: s1 s2 s3 s4 if_not_P split: if_splits) simp
qed

section \<open>The loop of the driver\<close>

lemma build_project_eq:
  "build_project net (curl, sent) url p =
     (let c = curl\<lparr>CURLOPT_URL := map_option c_str url, CURLOPT_POST := 1,
                    CURLOPT_POSTFIELDS := Some []\<rparr>
      in (dispatch_result net sent c,
          c\<lparr>CURLINFO_RESPONSE_CODE := response_code (net sent c)\<rparr>, sent @ [c]))"
  by (simp add: build_project_def curl_easy_perform_def Let_def dispatch_result_def)

lemma dispatch_results_snoc:
  "dispatch_results net (sent @ [c]) = dispatch_results net sent @ [dispatch_result net sent c]"
  by (auto simp: dispatch_results_def nth_append)

lemma dispatch_results_Nil: "dispatch_results net [] = []"
  by (simp add: dispatch_results_def)

lemma main_loop_trace:
  assumes "fst st = 0"
    and "main_loop net ok host project saveptr st = (r, curl, sent)"
  shows "\<exists>k new. k \<le> length (for_project project saveptr)
      \<and> sent = snd (snd st) @ new \<and> length new = k
      \<and> map CURLOPT_URL new
          = map (\<lambda>p. map_option c_str (get_project_url_owned ok host p))
              (take k (for_project project saveptr))
      \<and> dispatch_results net sent
          = dispatch_results net (snd (snd st))
            @ (if r = 0 then replicate k 0 else replicate (k - 1) 0 @ [r])
      \<and> (r = 0 \<longrightarrow> k = length (for_project project saveptr))
      \<and> (r \<noteq> 0 \<longrightarrow> 0 < k)"
  using assms
proof (induction net ok host project saveptr st arbitrary: r curl sent rule: main_loop.induct)
  case (1 net ok host saveptr st)
  then show ?case by auto
next
  case (2 net ok host project saveptr st)
  obtain r0 curl0 sent0 where st: "st = (r0, curl0, sent0)" by (cases st) auto
  let ?c = "curl0\<lparr>CURLOPT_URL := map_option c_str (get_project_url_owned ok host project),
      CURLOPT_POST := 1, CURLOPT_POSTFIELDS := Some []\<rparr>"
  let ?r' = "dispatch_result net sent0 ?c"
  let ?st' = "build_project net (snd st) (get_project_url_owned ok host project) project"
  have st': "?st' = (?r', ?c\<lparr>CURLINFO_RESPONSE_CODE := response_code (net sent0 ?c)\<rparr>, sent0 @ [?c])"
    by (simp add: st build_project_eq Let_def)
  let ?next = "for_project (fst (strtok_r None '':'' saveptr)) (snd (strtok_r None '':'' saveptr))"
  show ?case
  proof (cases "?r' = 0")
    case False
    with "2.prems"(2) st' have "r = ?r'" "sent = sent0 @ [?c]"
      by (simp_all add: Let_def)
    with False show ?thesis
      by (intro exI [of _ 1] exI [of _ "[?c]"]) (simp add: st dispatch_results_snoc)
  next
    case True
    with "2.prems"(2) st' have run: "main_loop net ok host (fst (strtok_r None '':'' saveptr))
        (snd (strtok_r None '':'' saveptr)) ?st' = (r, curl, sent)"
      by (simp add: Let_def)
    have "fst ?st' = 0" using True st' by simp
    from "2.IH" [OF refl refl _ this run] True st'
    obtain k new where k: "k \<le> length ?next" "sent = (sent0 @ [?c]) @ new" "length new = k"
      "map CURLOPT_URL new = map (\<lambda>p. map_option c_str (get_project_url_owned ok host p)) (take k ?next)"
      "dispatch_results net sent = dispatch_results net (sent0 @ [?c])
            @ (if r = 0 then replicate k 0 else replicate (k - 1) 0 @ [r])"
      "r = 0 \<longrightarrow> k = length ?next" "r \<noteq> 0 \<longrightarrow> 0 < k"
      by auto
    show ?thesis
    proof (intro exI [of _ "Suc k"] exI [of _ "?c # new"] conjI)
      show "dispatch_results net sent = dispatch_results net (snd (snd st))
            @ (if r = 0 then replicate (Suc k) 0 else replicate (Suc k - 1) 0 @ [r])"
        using k(5,7) True
        by (cases k) (auto simp: st dispatch_results_snoc replicate_append_same)
    qed (use k in \<open>simp_all add: st\<close>)
  qed
qed

text \<open>The tokens of \<open>strtok_r\<close> are the segments that are not empty.\<close>

lemma spec_split_unfold:
  "spec_split (CHR '':'') s =
     takeWhile (\<lambda>c. c \<notin> set '':'') s
     # (if dropWhile (\<lambda>c. c \<notin> set '':'') s = [] then []
        else spec_split (CHR '':'') (tl (dropWhile (\<lambda>c. c \<notin> set '':'') s)))"
  by (induction s) auto

lemma spec_split_leading:
  "filter (\<lambda>p. p \<noteq> []) (spec_split (CHR '':'') (dropWhile (\<lambda>c. c \<in> set '':'') s))
     = filter (\<lambda>p. p \<noteq> []) (spec_split (CHR '':'') s)"
  by (induction s) simp_all

lemma strtok_r_None_Some: "strtok_r None delim saveptr = strtok_r (Some saveptr) delim x"
  by (simp only: strtok_r_def option.case)

lemma for_project_tokens:
  "for_project (fst (strtok_r (Some s) '':'' x)) (snd (strtok_r (Some s) '':'' x))
     = filter (\<lambda>p. p \<noteq> []) (spec_split (CHR '':'') s)"
proof (induction s arbitrary: x rule: measure_induct_rule [of length])
  case (less s)
  define s' where "s' = dropWhile (\<lambda>c. c \<in> set '':'') s"
  define tk where "tk = takeWhile (\<lambda>c. c \<notin> set '':'') s'"
  define rest where "rest = dropWhile (\<lambda>c. c \<notin> set '':'') s'"
  define sp where "sp = (if rest = [] then [] else tl rest)"
  have lead: "filter (\<lambda>p. p \<noteq> []) (spec_split (CHR '':'') s)
       = filter (\<lambda>p. p \<noteq> []) (spec_split (CHR '':'') s')"
    unfolding s'_def by (rule spec_split_leading [symmetric])
  show ?case
  proof (cases "s' = []")
    case True
    have "strtok_r (Some s) '':'' x = (None, [])"
      by (rule strtok_r_None [where str = "Some s", unfolded option.case, OF True [unfolded s'_def]])
    then have "for_project (fst (strtok_r (Some s) '':'' x)) (snd (strtok_r (Some s) '':'' x)) = []"
      by (simp only: fst_conv snd_conv for_project.simps)
    moreover have "filter (\<lambda>p. p \<noteq> []) (spec_split (CHR '':'') s') = []"
      unfolding True by simp
    ultimately show ?thesis
      by (simp only: lead)
  next
    case False
    have tok: "strtok_r (Some s) '':'' x = (Some tk, sp)"
      unfolding sp_def rest_def tk_def s'_def
      by (rule strtok_r_Some [where str = "Some s", unfolded option.case, OF False [unfolded s'_def]])
    have "hd s' \<notin> set '':''"
      unfolding s'_def by (rule hd_dropWhile [OF False [unfolded s'_def]])
    with False have ne: "tk \<noteq> []"
      unfolding tk_def by (cases s') simp_all
    have "tk @ rest = s'"
      unfolding tk_def rest_def by (rule takeWhile_dropWhile_id)
    then have "length tk + length rest = length s'"
      by (simp only: length_append [symmetric])
    with ne have "length rest < length s'"
      by (cases tk) simp_all
    moreover have "length s' \<le> length s"
      unfolding s'_def by (rule length_dropWhile_le)
    moreover have "length sp \<le> length rest"
      unfolding sp_def by simp
    ultimately have shorter: "length sp < length s"
      by linarith
    have IH: "for_project (fst (strtok_r None '':'' sp)) (snd (strtok_r None '':'' sp))
        = filter (\<lambda>p. p \<noteq> []) (spec_split (CHR '':'') sp)"
      unfolding strtok_r_None_Some [of "'':''" sp "[]"]
      by (rule less [OF shorter])
    have "for_project (fst (strtok_r (Some s) '':'' x)) (snd (strtok_r (Some s) '':'' x))
        = tk # filter (\<lambda>p. p \<noteq> []) (spec_split (CHR '':'') sp)"
      by (simp only: tok fst_conv snd_conv for_project.simps IH)
    moreover have "spec_split (CHR '':'') s'
        = tk # (if rest = [] then [] else spec_split (CHR '':'') (tl rest))"
      unfolding tk_def rest_def by (rule spec_split_unfold)
    then have "filter (\<lambda>p. p \<noteq> []) (spec_split (CHR '':'') s')
        = tk # filter (\<lambda>p. p \<noteq> []) (spec_split (CHR '':'') sp)"
      using ne by (simp add: sp_def)
    ultimately show ?thesis
      by (simp only: lead)
  qed
qed

lemma main_loop_entry:
  assumes "main_reaches_loop w s creds"
  shows "main w =
     (case main_loop (network w) (malloc w) (jenkins_host (arguments w))
             (fst (strtok_r (Some s) '':'' [])) (snd (strtok_r (Some s) '':'' []))
             (0, client creds, [])
      of (result, curl, sent) \<Rightarrow> (result, sent))"
  using assms
  by (auto simp: main_reaches_loop_def main_def client_def Let_def split: option.splits)

lemma main_trace:
  assumes "main_reaches_loop w s creds"
  shows "length (snd (main w)) \<le> length (filter (\<lambda>p. p \<noteq> []) (spec_split (CHR '':'') s))
    \<and> map CURLOPT_URL (snd (main w))
        = map (\<lambda>p. map_option c_str (get_project_url_owned (malloc w) (jenkins_host (arguments w)) p))
            (take (length (snd (main w))) (filter (\<lambda>p. p \<noteq> []) (spec_split (CHR '':'') s)))
    \<and> dispatch_results (network w) (snd (main w))
        = (if fst (main w) = 0 then replicate (length (snd (main w))) 0
           else replicate (length (snd (main w)) - 1) 0 @ [fst (main w)])
    \<and> (fst (main w) = 0 \<longrightarrow>
          length (snd (main w)) = length (filter (\<lambda>p. p \<noteq> []) (spec_split (CHR '':'') s)))
    \<and> (fst (main w) \<noteq> 0 \<longrightarrow> snd (main w) \<noteq> [])"
proof -
  let ?loop = "main_loop (network w) (malloc w) (jenkins_host (arguments w))
      (fst (strtok_r (Some s) '':'' [])) (snd (strtok_r (Some s) '':'' [])) (0, client creds, [])"
  obtain r curl sent where loop: "?loop = (r, curl, sent)"
    by (cases ?loop) auto
  with main_loop_entry [OF assms] have m: "main w = (r, sent)"
    by simp
  from main_loop_trace [OF _ loop] for_project_tokens [of s "[]"]
  show ?thesis
    unfolding m by (auto simp: dispatch_results_Nil)
qed

lemma dispatch_results_all_ok:
  assumes "\<And>sent curl. curlcode (net sent curl) = CURLE_OK"
  shows "dispatch_results net sent = replicate (length sent) 0"
  using assms
  by (simp add: dispatch_results_def dispatch_result_def map_replicate_const)

lemma last_dispatch_results:
  assumes "sent \<noteq> []"
  shows "last (dispatch_results net sent) = dispatch_result net (butlast sent) (last sent)"
proof -
  from assms have "sent = butlast sent @ [last sent]" by simp
  then have "dispatch_results net sent = dispatch_results net (butlast sent @ [last sent])"
    by simp
  then show ?thesis
    by (simp only: dispatch_results_snoc last_snoc)
qed

lemma main_exit_nonzero:
  assumes "main_reaches_loop w s creds" and "fst (main w) \<noteq> 0"
  shows "snd (main w) \<noteq> []
    \<and> dispatch_result (network w) (butlast (snd (main w))) (last (snd (main w))) = fst (main w)"
proof -
  from main_trace [OF assms(1)] assms(2)
  have ne: "snd (main w) \<noteq> []"
    and "dispatch_results (network w) (snd (main w))
      = replicate (length (snd (main w)) - 1) 0 @ [fst (main w)]"
    by simp_all
  then have "last (dispatch_results (network w) (snd (main w))) = fst (main w)"
    by simp
  with ne show ?thesis
    by (simp add: last_dispatch_results)
qed

lemma main_exit_status:
  assumes "main_reaches_loop w s creds"
  shows "exit_status (fst (main w))
    = (if snd (main w) = [] then 0
       else last (dispatch_results (network w) (snd (main w))) mod 256)"
proof (cases "fst (main w) = 0")
  case True
  with main_trace [OF assms]
  have "dispatch_results (network w) (snd (main w)) = replicate (length (snd (main w))) 0"
    by simp
  then show ?thesis
    using True by (simp add: exit_status_def)
next
  case False
  with main_trace [OF assms]
  have "snd (main w) \<noteq> []"
    and "dispatch_results (network w) (snd (main w))
      = replicate (length (snd (main w)) - 1) 0 @ [fst (main w)]"
    by simp_all
  then show ?thesis
    by (simp add: exit_status_def)
qed

lemma main_all_ok:
  assumes "main_reaches_loop w s creds"
    and "\<And>sent curl. curlcode (network w sent curl) = CURLE_OK"
  shows "fst (main w) = 0"
proof (rule ccontr)
  assume "fst (main w) \<noteq> 0"
  from main_exit_nonzero [OF assms(1) this] assms(2) this show False
    by (simp add: dispatch_result_def)
qed

lemma main_early_exits:
  "getenv_PROJECTS w = None \<Longrightarrow> main w = (EINVAL, [])"
  "getenv_PROJECTS w \<noteq> None \<Longrightarrow>
     get_file_contents (files w) (malloc w) (heap w) (credentials (arguments w)) = None \<Longrightarrow>
     main w = (EINVAL, [])"
  "getenv_PROJECTS w \<noteq> None \<Longrightarrow>
     get_file_contents (files w) (malloc w) (heap w) (credentials (arguments w)) = Some f \<Longrightarrow>
     fst (get_user_credentials (json_tokener_parse w) \<lparr>user = None, token = None\<rparr> f) \<noteq> 0 \<Longrightarrow>
     main w = (fst (get_user_credentials (json_tokener_parse w) \<lparr>user = None, token = None\<rparr> f), [])"
  "getenv_PROJECTS w \<noteq> None \<Longrightarrow>
     get_file_contents (files w) (malloc w) (heap w) (credentials (arguments w)) = Some f \<Longrightarrow>
     fst (get_user_credentials (json_tokener_parse w) \<lparr>user = None, token = None\<rparr> f) = 0 \<Longrightarrow>
     \<not> curl_easy_init_ok w \<Longrightarrow>
     main w = (ENOMEM, [])"
  by (auto simp: main_def split: prod.splits)

section \<open>The return codes of the credential loader\<close>

lemma get_user_credentials_codes:
  "fst (get_user_credentials tokener c s) =
     (case tokener s of None \<Rightarrow> 1
      | Some obj \<Rightarrow>
          if \<not> json_object_is_type (json_object_object_get obj ''user'') json_type_string then 2
          else if \<not> json_object_is_type (json_object_object_get obj ''token'') json_type_string then 3
          else 0)"
  by (auto simp: get_user_credentials_def Let_def json_object_is_type_def split: option.splits)

lemma get_user_credentials_strings:
  assumes "tokener s = Some obj"
    and "json_object_object_get obj ''user'' = Some (JString u)"
    and "json_object_object_get obj ''token'' = Some (JString t)"
  shows "get_user_credentials tokener c s = (0, \<lparr>user = Some (c_str u), token = Some (c_str t)\<rparr>)"
  using assms
  by (simp add: get_user_credentials_def Let_def json_object_is_type_def strdup_def)

lemma example_texts_differ:
  "text_valid \<noteq> text_no_token" "text_valid \<noteq> text_int_user" "text_valid \<noteq> text_nul_user"
  "text_no_token \<noteq> text_int_user" "text_no_token \<noteq> text_nul_user"
  "text_int_user \<noteq> text_nul_user" "text_int_user \<noteq> text_no_token"
  "text_nul_user \<noteq> text_valid" "text_nul_user \<noteq> text_no_token" "text_nul_user \<noteq> text_int_user"
  "text_no_token \<noteq> text_valid" "text_int_user \<noteq> text_valid"
  "''not json'' \<noteq> text_valid" "''not json'' \<noteq> text_no_token"
  "''not json'' \<noteq> text_int_user" "''not json'' \<noteq> text_nul_user"
  by (simp_all add: text_valid_def text_no_token_def text_int_user_def text_nul_user_def)

section \<open>The example runs\<close>

lemma example_world_sel:
  "network (example_world projects net) = net"
  "malloc (example_world projects net) = (\<lambda>n. True)"
  "getenv_PROJECTS (example_world projects net) = projects"
  "jenkins_host (arguments (example_world projects net)) = ''http://ci.example.com''"
  by (simp_all add: example_world_def)

lemma example_file_contents:
  "get_file_contents (example_files text) (\<lambda>n. True) [CHR 0x00] ''creds.json''
     = Some (text @ [CHR 0x00])"
  by (simp add: get_file_contents_def example_files_def)

lemma example_texts_c_str:
  "c_str (text_valid @ [CHR 0x00]) = text_valid"
  "c_str (text_no_token @ [CHR 0x00]) = text_no_token"
  "c_str (text_int_user @ [CHR 0x00]) = text_int_user"
  "c_str (''not json'' @ [CHR 0x00]) = ''not json''"
  by (rule c_str_terminated, simp add: text_valid_def text_no_token_def text_int_user_def)+

lemma example_loader:
  "get_user_credentials (\<lambda>string. example_tokener (c_str string))
     \<lparr>user = None, token = None\<rparr> (text_valid @ [CHR 0x00])
     = (0, example_credentials)"
  by (simp add: get_user_credentials_def example_texts_c_str)
     (simp add: example_tokener_def Let_def json_object_is_type_def
       strdup_def c_str_def example_credentials_def)

lemma example_reaches_loop:
  "main_reaches_loop (example_world (Some s) net) s example_credentials"
  by (simp add: main_reaches_loop_def example_world_def example_file_contents example_loader)

lemma example_url:
  "CHR 0x00 \<notin> set project \<Longrightarrow>
   map_option c_str (get_project_url_owned (\<lambda>n. True) ''http://ci.example.com'' project)
     = Some (''http://ci.example.com/job/'' @ project @ ''/build'')"
  using c_str_terminated [of "''http://ci.example.com/job/'' @ project @ ''/build''" "[]"]
  by (simp add: get_project_url_owned_buffer)

lemma example_main:
  "main (example_world (Some s) net) =
     (case main_loop net (\<lambda>n. True) ''http://ci.example.com''
             (fst (strtok_r (Some s) '':'' [])) (snd (strtok_r (Some s) '':'' []))
             (0, (example_request [] 0)\<lparr>CURLOPT_URL := None, CURLOPT_POST := 0, CURLOPT_POSTFIELDS := None\<rparr>, [])
      of (result, curl, sent) \<Rightarrow> (result, sent))"
  using main_loop_entry [OF example_reaches_loop [of s net]]
  by (simp add: example_world_def client_def example_credentials_def curl_easy_init_def
      CURLAUTH_BASIC_def c_str_def example_request_def)

lemma example_step:
  "CHR 0x00 \<notin> set project \<Longrightarrow>
   build_project net ((example_request u st)\<lparr>CURLOPT_URL := a, CURLOPT_POST := b, CURLOPT_POSTFIELDS := c\<rparr>, sent)
     (get_project_url_owned (\<lambda>n. True) ''http://ci.example.com'' project) project
   = (let c = example_request (''http://ci.example.com/job/'' @ project @ ''/build'') st
      in (dispatch_result net sent c,
          c\<lparr>CURLINFO_RESPONSE_CODE := response_code (net sent c)\<rparr>, sent @ [c]))"
  by (simp add: build_project_eq Let_def example_request_def example_url)

lemma example_step':
  "CHR 0x00 \<notin> set project \<Longrightarrow>
   build_project net (example_request u st, sent)
     (get_project_url_owned (\<lambda>n. True) ''http://ci.example.com'' project) project
   = (let c = example_request (''http://ci.example.com/job/'' @ project @ ''/build'') st
      in (dispatch_result net sent c,
          c\<lparr>CURLINFO_RESPONSE_CODE := response_code (net sent c)\<rparr>, sent @ [c]))"
  using example_step [where project = project and net = net and u = u and st = st
      and a = "Some u" and b = 1 and c = "Some []" and sent = sent]
  by (simp add: example_request_def)

lemma example_request_response:
  "(example_request u st)\<lparr>CURLINFO_RESPONSE_CODE := st'\<rparr> = example_request u st'"
  by (simp add: example_request_def)

lemma example_request_url: "CURLOPT_URL (example_request u st) = Some u"
  by (simp add: example_request_def)

lemma strtok_svc:
  "strtok_r (Some ''svc1:svc2'') '':'' [] = (Some ''svc1'', ''svc2'')"
  "strtok_r None '':'' ''svc2'' = (Some ''svc2'', [])"
  "strtok_r None '':'' [] = (None, [])"
  "strtok_r (Some []) '':'' [] = (None, [])"
  by (simp_all add: strtok_r_def)

lemma strtok_abc:
  "strtok_r (Some ''a:b:c'') '':'' [] = (Some ''a'', ''b:c'')"
  "strtok_r None '':'' ''b:c'' = (Some ''b'', ''c'')"
  "strtok_r None '':'' ''c'' = (Some ''c'', [])"
  by (simp_all add: strtok_r_def)

lemma strtok_malformed:
  "strtok_r (Some '':a::b:'') '':'' [] = (Some ''a'', '':b:'')"
  "strtok_r None '':'' '':b:'' = (Some ''b'', [])"
  by (simp_all add: strtok_r_def)

lemma unreachable_run:
  "main (example_world (Some ''svc1:svc2'') (always CURLE_COULDNT_CONNECT 0))
     = (0, [example_request ''http://ci.example.com/job/svc1/build'' 0,
            example_request ''http://ci.example.com/job/svc2/build'' 0])"
  by (simp add: example_main strtok_svc example_step example_step' Let_def example_request_response
      dispatch_result_def always_def CURLE_OK_def CURLE_COULDNT_CONNECT_def)

lemma rejected_run:
  "main (example_world (Some ''svc1:svc2'') (always CURLE_OK 401))
     = (0, [example_request ''http://ci.example.com/job/svc1/build'' 0,
            example_request ''http://ci.example.com/job/svc2/build'' 401])"
  by (simp add: example_main strtok_svc example_step example_step' Let_def example_request_response
      dispatch_result_def always_def CURLE_OK_def)

lemma abc_run:
  "main (example_world (Some ''a:b:c'') (failing_at ''http://ci.example.com/job/b/build'' CURLE_RECV_ERROR 500))
     = (500, [example_request ''http://ci.example.com/job/a/build'' 0,
            example_request ''http://ci.example.com/job/b/build'' 201])"
  by (simp add: example_main strtok_abc example_step example_step' Let_def example_request_response
      dispatch_result_def failing_at_def CURLE_OK_def CURLE_RECV_ERROR_def example_request_url)

lemma abc_ok_run:
  "main (example_world (Some ''a:b:c'') (always CURLE_OK 201))
     = (0, [example_request ''http://ci.example.com/job/a/build'' 0,
            example_request ''http://ci.example.com/job/b/build'' 201,
            example_request ''http://ci.example.com/job/c/build'' 201])"
  by (simp add: example_main strtok_abc strtok_svc example_step example_step' Let_def
      example_request_response dispatch_result_def always_def CURLE_OK_def)

lemma strtok_gap:
  "strtok_r (Some ''a::b'') '':'' [] = (Some ''a'', '':b'')"
  "strtok_r None '':'' '':b'' = (Some ''b'', [])"
  by (simp_all add: strtok_r_def)

lemma gap_run:
  "main (example_world (Some ''a::b'')
      (failing_at ''http://ci.example.com/job/b/build'' CURLE_RECV_ERROR 500))
     = (500, [example_request ''http://ci.example.com/job/a/build'' 0,
              example_request ''http://ci.example.com/job/b/build'' 201])"
  by (simp add: example_main strtok_gap example_step example_step' Let_def
      example_request_response dispatch_result_def failing_at_def CURLE_OK_def
      CURLE_RECV_ERROR_def example_request_url)

lemma failed_run:
  "status \<noteq> 0 \<Longrightarrow>
   main (example_world (Some ''svc1:svc2'') (always CURLE_RECV_ERROR status))
     = (status, [example_request ''http://ci.example.com/job/svc1/build'' 0])"
  by (simp add: example_main strtok_svc example_step Let_def example_request_response
      dispatch_result_def always_def CURLE_OK_def CURLE_RECV_ERROR_def)

lemma single_run:
  "main (example_world (Some ''svc1'') (always CURLE_OK 201))
     = (0, [example_request ''http://ci.example.com/job/svc1/build'' 0])"
proof -
  have "strtok_r (Some ''svc1'') '':'' [] = (Some ''svc1'', [])"
    by (simp add: strtok_r_def)
  then show ?thesis
    by (simp add: example_main strtok_svc example_step Let_def example_request_response
        dispatch_result_def always_def CURLE_OK_def)
qed

lemma unterminated_file_contents:
  "get_file_contents (example_files (butlast text_valid)) (\<lambda>n. True) [CHR ''}'', CHR 0x00]
     ''creds.json'' = Some (text_valid @ [CHR 0x00])"
  by (simp add: get_file_contents_def example_files_def text_valid_def)

lemma unterminated_run:
  "main ((example_world (Some ''svc1'') (always CURLE_OK 201))
      \<lparr>files := example_files (butlast text_valid), heap := [CHR ''}'', CHR 0x00]\<rparr>)
     = main (example_world (Some ''svc1'') (always CURLE_OK 201))"
  by (simp add: main_def example_world_def unterminated_file_contents example_file_contents
      example_loader)

lemma malformed_run:
  "main (example_world (Some '':a::b:'') (always CURLE_OK 201))
     = (0, [example_request ''http://ci.example.com/job/a/build'' 0,
            example_request ''http://ci.example.com/job/b/build'' 201])"
  by (simp add: example_main strtok_malformed strtok_svc example_step example_step' Let_def
      example_request_response dispatch_result_def always_def CURLE_OK_def)

section \<open>The claims\<close>

text \<open>
  C1. The claim: when the transfer fails, \<open>build_project\<close> returns the
  response code if one was obtained and a non-zero value otherwise, so that an
  unreachable host for the first project ends the loop after one POST with a
  non-zero exit code. The code returns the response code that libcurl has
  stored, which is 0 when no response was received: with \<open>PROJECTS=svc1:svc2\<close>
  and every transfer failing to connect, \<open>build_project\<close> returns 0 for
  \<open>svc1\<close>, both projects are contacted, and \<open>main\<close> returns 0.
\<close>

theorem main_unreachable_host:
  "fst (build_project (always CURLE_COULDNT_CONNECT 0) (client example_credentials, [])
         (get_project_url_owned (\<lambda>n. True) ''http://ci.example.com'' ''svc1'') ''svc1'') = 0
   \<and> main (example_world (Some ''svc1:svc2'') (always CURLE_COULDNT_CONNECT 0))
     = (0, [example_request ''http://ci.example.com/job/svc1/build'' 0,
            example_request ''http://ci.example.com/job/svc2/build'' 0])"
proof
  show "fst (build_project (always CURLE_COULDNT_CONNECT 0) (client example_credentials, [])
         (get_project_url_owned (\<lambda>n. True) ''http://ci.example.com'' ''svc1'') ''svc1'') = 0"
    by (simp add: build_project_eq Let_def dispatch_result_def always_def)
  show "main (example_world (Some ''svc1:svc2'') (always CURLE_COULDNT_CONNECT 0))
     = (0, [example_request ''http://ci.example.com/job/svc1/build'' 0,
            example_request ''http://ci.example.com/job/svc2/build'' 0])"
    by (rule unreachable_run)
qed

text \<open>
  C2. When the transfer completes (\<open>curl_easy_perform\<close> returns \<open>CURLE_OK\<close>),
  \<open>build_project\<close> returns 0 whatever the response code is. So a run that
  reaches the loop and whose transfers all complete returns 0 and contacts every
  project, also when the server answers each of them with 401.
\<close>

theorem build_project_ignores_status:
  "(fst (curl_easy_perform net
          (curl\<lparr>CURLOPT_URL := map_option c_str project_url, CURLOPT_POST := 1,
                 CURLOPT_POSTFIELDS := Some []\<rparr>, sent)) = CURLE_OK
      \<longrightarrow> fst (build_project net (curl, sent) project_url project) = 0)
   \<and> (main_reaches_loop w s creds \<and> (\<forall>sent curl. curlcode (network w sent curl) = CURLE_OK)
      \<longrightarrow> fst (main w) = 0
        \<and> length (snd (main w)) = length (filter (\<lambda>p. p \<noteq> []) (spec_split (CHR '':'') s)))"
proof (intro conjI impI)
  assume "fst (curl_easy_perform net
          (curl\<lparr>CURLOPT_URL := map_option c_str project_url, CURLOPT_POST := 1,
                 CURLOPT_POSTFIELDS := Some []\<rparr>, sent)) = CURLE_OK"
  then show "fst (build_project net (curl, sent) project_url project) = 0"
    by (auto simp: build_project_def Let_def split: prod.splits)
next
  assume a: "main_reaches_loop w s creds \<and> (\<forall>sent curl. curlcode (network w sent curl) = CURLE_OK)"
  then show "fst (main w) = 0"
    by (intro main_all_ok [of w s creds]) simp_all
  with a main_trace [of w s creds]
  show "length (snd (main w)) = length (filter (\<lambda>p. p \<noteq> []) (spec_split (CHR '':'') s))"
    by simp
qed

theorem build_project_ignores_status_witness:
  "fst (curl_easy_perform (always CURLE_OK 401)
          ((client example_credentials)
             \<lparr>CURLOPT_URL := map_option c_str (Some ''http://ci.example.com/job/svc1/build''),
              CURLOPT_POST := 1, CURLOPT_POSTFIELDS := Some []\<rparr>, [])) = CURLE_OK
   \<and> response_code (always CURLE_OK 401 []
          ((client example_credentials)
             \<lparr>CURLOPT_URL := map_option c_str (Some ''http://ci.example.com/job/svc1/build''),
              CURLOPT_POST := 1, CURLOPT_POSTFIELDS := Some []\<rparr>)) = 401
   \<and> fst (build_project (always CURLE_OK 401) (client example_credentials, [])
          (Some ''http://ci.example.com/job/svc1/build'') ''svc1'') = 0
   \<and> main_reaches_loop (example_world (Some ''svc1:svc2'') (always CURLE_OK 401)) ''svc1:svc2''
        example_credentials
   \<and> fst (main (example_world (Some ''svc1:svc2'') (always CURLE_OK 401))) = 0
   \<and> length (snd (main (example_world (Some ''svc1:svc2'') (always CURLE_OK 401)))) = 2"
  using build_project_ignores_status [where net = "always CURLE_OK 401"
      and curl = "client example_credentials"
      and project_url = "Some ''http://ci.example.com/job/svc1/build''" and sent = "[]"
      and project = "''svc1''" and w = "example_world (Some ''svc1:svc2'') (always CURLE_OK 401)"
      and s = "''svc1:svc2''" and creds = example_credentials]
    example_reaches_loop [of "''svc1:svc2''" "always CURLE_OK 401"]
  by (simp add: curl_easy_perform_def always_def example_world_def)

text \<open>
  C3, as amended. In a run that reaches the loop, the sequence of the projects
  is the list of the segments of \<open>PROJECTS\<close> between colons that are not empty
  (not every segment of the split: an empty one is skipped). The transfers are
  made for the first projects of this sequence, in its order; every dispatch but
  the last returned 0; a non-zero value that \<open>main\<close> returns is the value of the
  last dispatch, and the projects behind it are not contacted; \<open>main\<close> returns
  0 only when every project was contacted and every dispatch returned 0. The
  exit status of the process is the value of the last dispatch modulo 256 (0
  when there was none), not the value itself. The claim as stated, that each
  segment of the split is dispatched and that the result is the final status of
  the process, fails.
\<close>

theorem main_dispatches_in_order:
  assumes "main_reaches_loop w s creds"
  shows "length (snd (main w)) \<le> length (filter (\<lambda>p. p \<noteq> []) (spec_split (CHR '':'') s))
    \<and> map CURLOPT_URL (snd (main w))
        = map (\<lambda>p. map_option c_str (get_project_url_owned (malloc w) (jenkins_host (arguments w)) p))
            (take (length (snd (main w))) (filter (\<lambda>p. p \<noteq> []) (spec_split (CHR '':'') s)))
    \<and> dispatch_results (network w) (snd (main w))
        = (if fst (main w) = 0 then replicate (length (snd (main w))) 0
           else replicate (length (snd (main w)) - 1) 0 @ [fst (main w)])
    \<and> exit_status (fst (main w))
        = (if snd (main w) = [] then 0
           else last (dispatch_results (network w) (snd (main w))) mod 256)
    \<and> (fst (main w) = 0 \<longrightarrow>
          length (snd (main w)) = length (filter (\<lambda>p. p \<noteq> []) (spec_split (CHR '':'') s)))
    \<and> (fst (main w) \<noteq> 0 \<longrightarrow> snd (main w) \<noteq> [])"
  using main_trace [OF assms] main_exit_status [OF assms] by simp

theorem main_dispatches_in_order_witness:
  "main_reaches_loop
     (example_world (Some ''a:b:c'')
        (failing_at ''http://ci.example.com/job/b/build'' CURLE_RECV_ERROR 500))
     ''a:b:c'' example_credentials
   \<and> filter (\<lambda>p. p \<noteq> []) (spec_split (CHR '':'') ''a:b:c'') = [''a'', ''b'', ''c'']
   \<and> fst (main (example_world (Some ''a:b:c'')
        (failing_at ''http://ci.example.com/job/b/build'' CURLE_RECV_ERROR 500))) = 500
   \<and> map CURLOPT_URL (snd (main (example_world (Some ''a:b:c'')
        (failing_at ''http://ci.example.com/job/b/build'' CURLE_RECV_ERROR 500))))
       = [Some ''http://ci.example.com/job/a/build'', Some ''http://ci.example.com/job/b/build'']
   \<and> dispatch_results (failing_at ''http://ci.example.com/job/b/build'' CURLE_RECV_ERROR 500)
        (snd (main (example_world (Some ''a:b:c'')
          (failing_at ''http://ci.example.com/job/b/build'' CURLE_RECV_ERROR 500))))
       = [0, 500]
   \<and> exit_status (fst (main (example_world (Some ''a:b:c'')
        (failing_at ''http://ci.example.com/job/b/build'' CURLE_RECV_ERROR 500)))) = 244
   \<and> main_reaches_loop (example_world (Some ''a:b:c'') (always CURLE_OK 201))
        ''a:b:c'' example_credentials
   \<and> fst (main (example_world (Some ''a:b:c'') (always CURLE_OK 201))) = 0
   \<and> map CURLOPT_URL (snd (main (example_world (Some ''a:b:c'') (always CURLE_OK 201))))
       = [Some ''http://ci.example.com/job/a/build'', Some ''http://ci.example.com/job/b/build'',
          Some ''http://ci.example.com/job/c/build'']
   \<and> dispatch_results (always CURLE_OK 201)
        (snd (main (example_world (Some ''a:b:c'') (always CURLE_OK 201)))) = [0, 0, 0]
   \<and> exit_status (fst (main (example_world (Some ''a:b:c'') (always CURLE_OK 201)))) = 0"
proof -
  let ?fail = "failing_at ''http://ci.example.com/job/b/build'' CURLE_RECV_ERROR 500"
  have r1: "main_reaches_loop (example_world (Some ''a:b:c'') ?fail) ''a:b:c'' example_credentials"
    by (rule example_reaches_loop)
  have r2: "main_reaches_loop (example_world (Some ''a:b:c'') (always CURLE_OK 201)) ''a:b:c''
      example_credentials"
    by (rule example_reaches_loop)
  have seq: "filter (\<lambda>p. p \<noteq> []) (spec_split (CHR '':'') ''a:b:c'') = [''a'', ''b'', ''c'']"
    by simp
  from main_dispatches_in_order [OF r1]
  have fail: "dispatch_results ?fail (snd (main (example_world (Some ''a:b:c'') ?fail))) = [0, 500]"
    by (simp add: abc_run example_world_sel)
  from main_dispatches_in_order [OF r1] fail
  have fail_exit: "exit_status (fst (main (example_world (Some ''a:b:c'') ?fail))) = 244"
    by (simp add: abc_run example_world_sel)
  from main_dispatches_in_order [OF r2]
  have ok: "dispatch_results (always CURLE_OK 201)
      (snd (main (example_world (Some ''a:b:c'') (always CURLE_OK 201)))) = [0, 0, 0]"
    by (simp add: abc_ok_run example_world_sel numeral_3_eq_3)
  from main_dispatches_in_order [OF r2] ok
  have ok_exit: "exit_status (fst (main (example_world (Some ''a:b:c'') (always CURLE_OK 201)))) = 0"
    by (simp add: abc_ok_run example_world_sel)
  show ?thesis
    by (intro conjI r1 r2 seq fail ok fail_exit ok_exit)
       (simp_all add: abc_run abc_ok_run example_request_url)
qed

theorem main_dispatches_in_order_counterexample:
  "spec_split (CHR '':'') ''a::b'' = [''a'', [], ''b'']
   \<and> map CURLOPT_URL (snd (main (example_world (Some ''a::b'')
        (failing_at ''http://ci.example.com/job/b/build'' CURLE_RECV_ERROR 500))))
       = [Some ''http://ci.example.com/job/a/build'', Some ''http://ci.example.com/job/b/build'']
   \<and> fst (build_project (failing_at ''http://ci.example.com/job/b/build'' CURLE_RECV_ERROR 500)
          (example_request ''http://ci.example.com/job/a/build'' 201,
           [example_request ''http://ci.example.com/job/a/build'' 0])
          (get_project_url_owned (\<lambda>n. True) ''http://ci.example.com'' ''b'') ''b'') = 500
   \<and> fst (main (example_world (Some ''a::b'')
        (failing_at ''http://ci.example.com/job/b/build'' CURLE_RECV_ERROR 500))) = 500
   \<and> exit_status (fst (main (example_world (Some ''a::b'')
        (failing_at ''http://ci.example.com/job/b/build'' CURLE_RECV_ERROR 500)))) = 244"
proof (intro conjI)
  show "spec_split (CHR '':'') ''a::b'' = [''a'', [], ''b'']"
    by simp
  show "fst (build_project (failing_at ''http://ci.example.com/job/b/build'' CURLE_RECV_ERROR 500)
          (example_request ''http://ci.example.com/job/a/build'' 201,
           [example_request ''http://ci.example.com/job/a/build'' 0])
          (get_project_url_owned (\<lambda>n. True) ''http://ci.example.com'' ''b'') ''b'') = 500"
    by (simp add: example_step' Let_def dispatch_result_def failing_at_def CURLE_OK_def
        CURLE_RECV_ERROR_def example_request_url)
qed (simp_all add: gap_run example_request_url exit_status_def)

text \<open>
  C4, as amended. The exit status of the process is: \<open>EINVAL\<close> when
  \<open>PROJECTS\<close> is unset and also when the credential file cannot be read; 1
  when the tokener returns NULL for the buffer that \<open>get_file_contents\<close> hands
  it; 2 and 3 when \<open>user\<close> or \<open>token\<close> is missing or not a string;
  \<open>ENOMEM\<close> when libcurl gives no handle. These are non-zero, and pairwise
  distinct but for the first two, which are equal. When the loop ends with a
  non-zero result, \<open>main\<close> returns the response code of the last transfer,
  which failed, and the exit status is this code modulo 256: it need not differ
  from the codes above, nor from 0. The claim as stated, that the codes of all
  the causes are pairwise distinct and non-zero, fails; it fails also for a file
  that is not valid JSON where the byte that the source leaves unwritten behind
  it completes the text: the first file of the examples without its closing
  brace, with a brace behind it in memory, is accepted and the run exits 0.
\<close>

theorem main_exit_codes:
  assumes "getenv_PROJECTS w1 = None"
    and "getenv_PROJECTS w2 \<noteq> None"
    and "get_file_contents (files w2) (malloc w2) (heap w2) (credentials (arguments w2)) = None"
    and "getenv_PROJECTS w3 \<noteq> None"
    and "get_file_contents (files w3) (malloc w3) (heap w3) (credentials (arguments w3)) = Some f3"
    and "json_tokener_parse w3 f3 = None"
    and "getenv_PROJECTS w4 \<noteq> None"
    and "get_file_contents (files w4) (malloc w4) (heap w4) (credentials (arguments w4)) = Some f4"
    and "json_tokener_parse w4 f4 = Some o4"
    and "\<not> json_object_is_type (json_object_object_get o4 ''user'') json_type_string"
    and "getenv_PROJECTS w5 \<noteq> None"
    and "get_file_contents (files w5) (malloc w5) (heap w5) (credentials (arguments w5)) = Some f5"
    and "json_tokener_parse w5 f5 = Some o5"
    and "json_object_is_type (json_object_object_get o5 ''user'') json_type_string"
    and "\<not> json_object_is_type (json_object_object_get o5 ''token'') json_type_string"
    and "getenv_PROJECTS w6 \<noteq> None"
    and "get_file_contents (files w6) (malloc w6) (heap w6) (credentials (arguments w6)) = Some f6"
    and "fst (get_user_credentials (json_tokener_parse w6) \<lparr>user = None, token = None\<rparr> f6) = 0"
    and "\<not> curl_easy_init_ok w6"
    and "main_reaches_loop w7 s7 c7" and "fst (main w7) \<noteq> 0"
  shows "exit_status (fst (main w1)) = EINVAL \<and> exit_status (fst (main w2)) = EINVAL
    \<and> exit_status (fst (main w3)) = 1 \<and> exit_status (fst (main w4)) = 2
    \<and> exit_status (fst (main w5)) = 3
    \<and> exit_status (fst (main w6)) = ENOMEM
    \<and> distinct [0, exit_status (fst (main w2)), exit_status (fst (main w3)),
         exit_status (fst (main w4)), exit_status (fst (main w5)), exit_status (fst (main w6))]
    \<and> snd (main w7) \<noteq> []
    \<and> CURLE_OK \<noteq> curlcode (network w7 (butlast (snd (main w7))) (last (snd (main w7))))
    \<and> fst (main w7) = response_code (network w7 (butlast (snd (main w7))) (last (snd (main w7))))
    \<and> exit_status (fst (main w7))
        = response_code (network w7 (butlast (snd (main w7))) (last (snd (main w7)))) mod 256"
proof -
  have 1: "fst (main w1) = EINVAL"
    using assms(1) by (simp add: main_early_exits(1))
  have 2: "fst (main w2) = EINVAL"
    using main_early_exits(2) [OF assms(2,3)] by simp
  have "fst (get_user_credentials (json_tokener_parse w3) \<lparr>user = None, token = None\<rparr> f3) = 1"
    using assms(6) by (simp add: get_user_credentials_codes)
  then have 3: "fst (main w3) = 1"
    using main_early_exits(3) [OF assms(4,5)] by simp
  have "fst (get_user_credentials (json_tokener_parse w4) \<lparr>user = None, token = None\<rparr> f4) = 2"
    using assms(9,10) by (simp add: get_user_credentials_codes)
  then have 4: "fst (main w4) = 2"
    using main_early_exits(3) [OF assms(7,8)] by simp
  have "fst (get_user_credentials (json_tokener_parse w5) \<lparr>user = None, token = None\<rparr> f5) = 3"
    using assms(13,14,15) by (simp add: get_user_credentials_codes)
  then have 5: "fst (main w5) = 3"
    using main_early_exits(3) [OF assms(11,12)] by simp
  have 6: "fst (main w6) = ENOMEM"
    using main_early_exits(4) [OF assms(16,17,18,19)] by simp
  have 7: "snd (main w7) \<noteq> []"
    "dispatch_result (network w7) (butlast (snd (main w7))) (last (snd (main w7))) = fst (main w7)"
    using main_exit_nonzero [OF assms(20,21)] by simp_all
  from 7(2) assms(21)
  have 8: "CURLE_OK \<noteq> curlcode (network w7 (butlast (snd (main w7))) (last (snd (main w7))))"
    "fst (main w7) = response_code (network w7 (butlast (snd (main w7))) (last (snd (main w7))))"
    by (auto simp: dispatch_result_def split: if_splits)
  have 9: "exit_status (fst (main w7))
      = response_code (network w7 (butlast (snd (main w7))) (last (snd (main w7)))) mod 256"
    using 8(2) by (simp add: exit_status_def)
  show ?thesis
    using 1 2 3 4 5 6 7(1) 8 9 by (simp add: EINVAL_def ENOMEM_def exit_status_def)
qed

theorem main_exit_codes_witness:
  "exit_status (fst (main (example_world None (always CURLE_OK 201)))) = 22
   \<and> exit_status (fst (main ((example_world (Some ''svc1'') (always CURLE_OK 201))
        \<lparr>files := \<lambda>path. None\<rparr>))) = 22
   \<and> exit_status (fst (main ((example_world (Some ''svc1'') (always CURLE_OK 201))
        \<lparr>files := example_files ''not json''\<rparr>))) = 1
   \<and> exit_status (fst (main ((example_world (Some ''svc1'') (always CURLE_OK 201))
        \<lparr>files := example_files text_int_user\<rparr>))) = 2
   \<and> exit_status (fst (main ((example_world (Some ''svc1'') (always CURLE_OK 201))
        \<lparr>files := example_files text_no_token\<rparr>))) = 3
   \<and> exit_status (fst (main ((example_world (Some ''svc1'') (always CURLE_OK 201))
        \<lparr>curl_easy_init_ok := False\<rparr>))) = 12
   \<and> main (example_world (Some ''svc1:svc2'') (always CURLE_RECV_ERROR 502))
       = (502, [example_request ''http://ci.example.com/job/svc1/build'' 0])
   \<and> response_code (always CURLE_RECV_ERROR 502 []
        (example_request ''http://ci.example.com/job/svc1/build'' 0)) = 502
   \<and> exit_status (fst (main (example_world (Some ''svc1:svc2'') (always CURLE_RECV_ERROR 502))))
       = 246"
proof -
  let ?w = "example_world (Some ''svc1'') (always CURLE_OK 201)"
  let ?w7 = "example_world (Some ''svc1:svc2'') (always CURLE_RECV_ERROR 502)"
  have 1: "getenv_PROJECTS (example_world None (always CURLE_OK 201)) = None"
    by (simp add: example_world_def)
  have 2: "getenv_PROJECTS (?w\<lparr>files := \<lambda>path. None\<rparr>) \<noteq> None"
    "get_file_contents (files (?w\<lparr>files := \<lambda>path. None\<rparr>)) (malloc (?w\<lparr>files := \<lambda>path. None\<rparr>))
       (heap (?w\<lparr>files := \<lambda>path. None\<rparr>))
       (credentials (arguments (?w\<lparr>files := \<lambda>path. None\<rparr>))) = None"
    by (simp_all add: example_world_def get_file_contents_def)
  have f: "getenv_PROJECTS (?w\<lparr>files := example_files content\<rparr>) \<noteq> None"
    "get_file_contents (files (?w\<lparr>files := example_files content\<rparr>))
       (malloc (?w\<lparr>files := example_files content\<rparr>))
       (heap (?w\<lparr>files := example_files content\<rparr>))
       (credentials (arguments (?w\<lparr>files := example_files content\<rparr>)))
      = Some (content @ [CHR 0x00])"
    "json_tokener_parse (?w\<lparr>files := example_files content\<rparr>)
      = (\<lambda>string. example_tokener (c_str string))" for content
    by (simp_all add: example_world_def example_file_contents)
  have t: "json_tokener_parse (?w\<lparr>files := example_files ''not json''\<rparr>)
        (''not json'' @ [CHR 0x00]) = None"
    "json_tokener_parse (?w\<lparr>files := example_files text_int_user\<rparr>)
        (text_int_user @ [CHR 0x00])
       = Some (JObject [(''user'', Some (JInt 7)), (''token'', Some (JString ''s3cr3t!''))])"
    "json_tokener_parse (?w\<lparr>files := example_files text_no_token\<rparr>)
        (text_no_token @ [CHR 0x00])
       = Some (JObject [(''user'', Some (JString ''ci-bot''))])"
    by (simp_all only: f(3) example_texts_c_str)
       (simp_all add: example_tokener_def example_texts_differ)
  have 6: "getenv_PROJECTS (?w\<lparr>curl_easy_init_ok := False\<rparr>) \<noteq> None"
    "get_file_contents (files (?w\<lparr>curl_easy_init_ok := False\<rparr>))
       (malloc (?w\<lparr>curl_easy_init_ok := False\<rparr>))
       (heap (?w\<lparr>curl_easy_init_ok := False\<rparr>))
       (credentials (arguments (?w\<lparr>curl_easy_init_ok := False\<rparr>)))
      = Some (text_valid @ [CHR 0x00])"
    "fst (get_user_credentials (json_tokener_parse (?w\<lparr>curl_easy_init_ok := False\<rparr>))
       \<lparr>user = None, token = None\<rparr> (text_valid @ [CHR 0x00])) = 0"
    "\<not> curl_easy_init_ok (?w\<lparr>curl_easy_init_ok := False\<rparr>)"
    by (simp_all add: example_world_def example_file_contents example_loader)
  have run: "main ?w7 = (502, [example_request ''http://ci.example.com/job/svc1/build'' 0])"
    by (rule failed_run) simp
  have 7: "main_reaches_loop ?w7 ''svc1:svc2'' example_credentials" "fst (main ?w7) \<noteq> 0"
    by (simp_all add: example_reaches_loop run)
  have u: "\<not> json_object_is_type
        (json_object_object_get (JObject [(''user'', Some (JInt 7)), (''token'', Some (JString ''s3cr3t!''))])
          ''user'') json_type_string"
    "json_object_is_type
        (json_object_object_get (JObject [(''user'', Some (JString ''ci-bot''))]) ''user'')
        json_type_string"
    "\<not> json_object_is_type
        (json_object_object_get (JObject [(''user'', Some (JString ''ci-bot''))]) ''token'')
        json_type_string"
    by (simp_all add: json_object_is_type_def)
  note codes = main_exit_codes [OF 1 2 f(1,2) t(1) f(1,2) t(2) u(1) f(1,2) t(3) u(2,3) 6 7]
  show ?thesis
  proof (intro conjI)
    show "main ?w7 = (502, [example_request ''http://ci.example.com/job/svc1/build'' 0])"
      by (rule run)
    show "response_code (always CURLE_RECV_ERROR 502 []
        (example_request ''http://ci.example.com/job/svc1/build'' 0)) = 502"
      by (simp add: always_def)
    show "exit_status (fst (main ?w7)) = 246"
      by (simp add: run exit_status_def)
  qed (use codes in \<open>simp_all add: EINVAL_def ENOMEM_def\<close>)
qed

theorem main_exit_codes_counterexample:
  "exit_status (fst (main (example_world None (always CURLE_OK 201)))) = 22
   \<and> exit_status (fst (main ((example_world (Some ''svc1'') (always CURLE_OK 201))
        \<lparr>files := \<lambda>path. None\<rparr>))) = 22
   \<and> exit_status (fst (main ((example_world (Some ''svc1'') (always CURLE_OK 201))
        \<lparr>curl_easy_init_ok := False\<rparr>))) = 12
   \<and> fst (main (example_world (Some ''svc1:svc2'') (always CURLE_RECV_ERROR 524))) = 524
   \<and> exit_status (fst (main (example_world (Some ''svc1:svc2'') (always CURLE_RECV_ERROR 524))))
       = 12
   \<and> fst (main (example_world (Some ''svc1:svc2'') (always CURLE_RECV_ERROR 512))) = 512
   \<and> exit_status (fst (main (example_world (Some ''svc1:svc2'') (always CURLE_RECV_ERROR 512))))
       = 0
   \<and> example_tokener (butlast text_valid) = None
   \<and> get_file_contents (example_files (butlast text_valid)) (\<lambda>n. True) [CHR ''}'', CHR 0x00]
        ''creds.json'' = Some (text_valid @ [CHR 0x00])
   \<and> exit_status (fst (main ((example_world (Some ''svc1'') (always CURLE_OK 201))
        \<lparr>files := example_files (butlast text_valid), heap := [CHR ''}'', CHR 0x00]\<rparr>))) = 0"
proof -
  let ?w = "example_world (Some ''svc1'') (always CURLE_OK 201)"
  have "main (example_world None (always CURLE_OK 201)) = (EINVAL, [])"
    by (rule main_early_exits(1)) (simp add: example_world_def)
  moreover have "main (?w\<lparr>files := \<lambda>path. None\<rparr>) = (EINVAL, [])"
    by (rule main_early_exits(2)) (simp_all add: example_world_def get_file_contents_def)
  moreover have "main (?w\<lparr>curl_easy_init_ok := False\<rparr>) = (ENOMEM, [])"
    by (rule main_early_exits(4) [where f = "text_valid @ [CHR 0x00]"])
       (simp_all add: example_world_def example_file_contents example_loader)
  moreover have "example_tokener (butlast text_valid) = None"
    by (simp add: example_tokener_def text_valid_def text_no_token_def text_int_user_def
        text_nul_user_def)
  ultimately show ?thesis
    by (simp add: failed_run exit_status_def EINVAL_def ENOMEM_def unterminated_file_contents
        unterminated_run single_run)
qed

text \<open>
  C5, as amended. The sequence of the projects that the loop dispatches is the
  list of the segments of \<open>PROJECTS\<close> between colons that are not empty, in
  their order: \<open>strtok_r\<close> skips a leading colon, a trailing colon and doubled
  colons, so no project name is the empty string. The claim as stated, that some
  value of \<open>PROJECTS\<close> gives an empty name, fails.
\<close>

theorem for_project_nonempty_segments:
  "for_project (fst (strtok_r (Some s) '':'' x)) (snd (strtok_r (Some s) '':'' x))
     = filter (\<lambda>p. p \<noteq> []) (spec_split (CHR '':'') s)
   \<and> [] \<notin> set (for_project (fst (strtok_r (Some s) '':'' x)) (snd (strtok_r (Some s) '':'' x)))"
  by (simp add: for_project_tokens)

theorem for_project_nonempty_segments_witness:
  "spec_split (CHR '':'') '':a::b:'' = [[], ''a'', [], ''b'', []]
   \<and> for_project (fst (strtok_r (Some '':a::b:'') '':'' [])) (snd (strtok_r (Some '':a::b:'') '':'' []))
     = [''a'', ''b'']"
  using for_project_nonempty_segments [of "'':a::b:''" "[]"]
  by simp

theorem for_project_empty_segment_counterexample:
  "map CURLOPT_URL (snd (main (example_world (Some '':a::b:'') (always CURLE_OK 201))))
     = [Some ''http://ci.example.com/job/a/build'', Some ''http://ci.example.com/job/b/build'']
   \<and> \<not> (\<exists>s. [] \<in> set (for_project (fst (strtok_r (Some s) '':'' []))
                                   (snd (strtok_r (Some s) '':'' []))))"
  by (simp add: malformed_run example_request_url for_project_tokens)

text \<open>
  C6. For every host and every project name (C strings, so without a NUL byte),
  \<open>get_project_url_owned\<close> returns, when \<open>malloc\<close> gives it the buffer, the
  buffer that holds exactly the bytes of \<open>host\<close>, \<open>/job/\<close>, \<open>project\<close> and
  \<open>/build\<close> in this order, and the terminator: nothing is encoded, no slash is
  added or removed, and a host that ends in a slash gives a doubled slash.
\<close>

theorem get_project_url_owned_concat:
  assumes "CHR 0x00 \<notin> set host" and "CHR 0x00 \<notin> set project"
    and "malloc_ok (length host + length project + 12)"
  shows "get_project_url_owned malloc_ok host project
           = Some (host @ ''/job/'' @ project @ ''/build'' @ [CHR 0x00])
       \<and> c_str (host @ ''/job/'' @ project @ ''/build'' @ [CHR 0x00])
           = host @ ''/job/'' @ project @ ''/build''"
proof -
  have "c_str ((host @ ''/job/'' @ project @ ''/build'') @ CHR 0x00 # [])
      = host @ ''/job/'' @ project @ ''/build''"
    using assms(1,2) by (intro c_str_terminated) simp
  then show ?thesis
    using assms by (simp add: get_project_url_owned_buffer)
qed

theorem get_project_url_owned_concat_witness:
  "get_project_url_owned (\<lambda>n. True) ''http://ci.example.com/'' ''a b/c?d''
     = Some (''http://ci.example.com//job/a b/c?d/build'' @ [CHR 0x00])
   \<and> c_str (''http://ci.example.com//job/a b/c?d/build'' @ [CHR 0x00])
     = ''http://ci.example.com//job/a b/c?d/build''"
  using get_project_url_owned_concat [of "''http://ci.example.com/''" "''a b/c?d''" "\<lambda>n. True"]
  by simp

text \<open>
  C7, as amended. For every text that the tokener turns into an object whose
  \<open>user\<close> and \<open>token\<close> are strings without a NUL byte, the loader returns 0
  and the struct holds exactly these two values, whatever other bytes (UTF-8
  sequences, punctuation) they have. The claim as stated, for every string value,
  fails: the fields are C strings, and \<open>strdup\<close> cuts a value at its first NUL
  byte.
\<close>

theorem get_user_credentials_roundtrip:
  assumes "tokener s = Some obj"
    and "json_object_object_get obj ''user'' = Some (JString u)"
    and "json_object_object_get obj ''token'' = Some (JString t)"
    and "CHR 0x00 \<notin> set u" and "CHR 0x00 \<notin> set t"
  shows "get_user_credentials tokener c s = (0, \<lparr>user = Some u, token = Some t\<rparr>)"
  using assms by (simp add: get_user_credentials_strings c_str_id)

theorem get_user_credentials_roundtrip_witness:
  "get_user_credentials example_tokener \<lparr>user = None, token = None\<rparr> text_valid
   = (0, \<lparr>user = Some (''zo'' @ [CHR 0xC3, CHR 0xAB]), token = Some ''s3cr3t!''\<rparr>)"
  using get_user_credentials_roundtrip [of example_tokener text_valid
      "JObject [(''user'', Some (JString (''zo'' @ [CHR 0xC3, CHR 0xAB]))),
                (''token'', Some (JString ''s3cr3t!''))]"
      "''zo'' @ [CHR 0xC3, CHR 0xAB]" "''s3cr3t!''" "\<lparr>user = None, token = None\<rparr>"]
  by (simp add: example_tokener_def)

theorem get_user_credentials_nul_counterexample:
  "example_tokener text_nul_user
     = Some (JObject [(''user'', Some (JString [CHR ''a'', CHR 0x00, CHR ''b''])),
                      (''token'', Some (JString ''t''))])
   \<and> get_user_credentials example_tokener \<lparr>user = None, token = None\<rparr> text_nul_user
     = (0, \<lparr>user = Some ''a'', token = Some ''t''\<rparr>)
   \<and> ''a'' \<noteq> [CHR ''a'', CHR 0x00, CHR ''b'']"
  by (simp add: example_tokener_def example_texts_differ get_user_credentials_def Let_def
      json_object_is_type_def strdup_def c_str_def)

text \<open>
  C8. The three failures of the credential loader have the return codes 1 (the
  tokener rejects the text), 2 (\<open>user\<close> is missing or not a string) and 3
  (\<open>user\<close> is a string, \<open>token\<close> is missing or not a string): each is
  non-zero, and the three are pairwise distinct.
\<close>

theorem get_user_credentials_failure_codes:
  assumes "tokener s1 = None"
    and "tokener s2 = Some o2"
    and "\<not> json_object_is_type (json_object_object_get o2 ''user'') json_type_string"
    and "tokener s3 = Some o3"
    and "json_object_is_type (json_object_object_get o3 ''user'') json_type_string"
    and "\<not> json_object_is_type (json_object_object_get o3 ''token'') json_type_string"
  shows "fst (get_user_credentials tokener c1 s1) = 1
       \<and> fst (get_user_credentials tokener c2 s2) = 2
       \<and> fst (get_user_credentials tokener c3 s3) = 3
       \<and> distinct [0, fst (get_user_credentials tokener c1 s1),
            fst (get_user_credentials tokener c2 s2),
            fst (get_user_credentials tokener c3 s3)]"
  using assms by (simp add: get_user_credentials_codes)

theorem get_user_credentials_failure_codes_witness:
  "fst (get_user_credentials example_tokener \<lparr>user = None, token = None\<rparr> ''not json'') = 1
   \<and> fst (get_user_credentials example_tokener \<lparr>user = None, token = None\<rparr> text_int_user) = 2
   \<and> fst (get_user_credentials example_tokener \<lparr>user = None, token = None\<rparr> text_no_token) = 3"
  using get_user_credentials_failure_codes [of example_tokener "''not json''"
      text_int_user
      "JObject [(''user'', Some (JInt 7)), (''token'', Some (JString ''s3cr3t!''))]"
      text_no_token
      "JObject [(''user'', Some (JString ''ci-bot''))]"
      "\<lparr>user = None, token = None\<rparr>" "\<lparr>user = None, token = None\<rparr>"
      "\<lparr>user = None, token = None\<rparr>"]
  by (simp add: example_tokener_def example_texts_differ json_object_is_type_def)

text \<open>
  C9. In a run that reaches the loop with \<open>PROJECTS\<close> set to the empty string,
  the loop makes no iteration: no transfer is made, and \<open>main\<close> returns 0.
\<close>

theorem main_empty_projects:
  assumes "main_reaches_loop w [] creds"
  shows "main w = (0, [])"
  using main_loop_entry [OF assms] by (simp add: strtok_r_def)

theorem main_empty_projects_witness:
  "main_reaches_loop (example_world (Some []) (always CURLE_COULDNT_CONNECT 0)) [] example_credentials
   \<and> main (example_world (Some []) (always CURLE_COULDNT_CONNECT 0)) = (0, [])"
  using main_empty_projects [of "example_world (Some []) (always CURLE_COULDNT_CONNECT 0)"
      example_credentials]
    example_reaches_loop [of "[]" "always CURLE_COULDNT_CONNECT 0"]
  by simp

text \<open>
  C10. \<open>get_user_credentials\<close> leaves the struct of the caller as it was
  whenever it returns a non-zero code: both fields are written on the path that
  returns 0 only.
\<close>

theorem get_user_credentials_atomic:
  assumes "fst (get_user_credentials tokener c s) \<noteq> 0"
  shows "snd (get_user_credentials tokener c s) = c"
  using assms
  by (auto simp: get_user_credentials_def Let_def split: option.splits if_splits)

theorem get_user_credentials_atomic_witness:
  "fst (get_user_credentials example_tokener \<lparr>user = Some ''old'', token = Some ''kept''\<rparr>
          text_no_token) \<noteq> 0
   \<and> snd (get_user_credentials example_tokener \<lparr>user = Some ''old'', token = Some ''kept''\<rparr>
          text_no_token) = \<lparr>user = Some ''old'', token = Some ''kept''\<rparr>"
  using get_user_credentials_atomic [of example_tokener
      "\<lparr>user = Some ''old'', token = Some ''kept''\<rparr>" text_no_token]
  by (simp add: get_user_credentials_codes example_tokener_def example_texts_differ
      json_object_is_type_def)

end
